theory Spec2Isabelle
  imports Complex_Main "HOL-Library.Sublist"
begin

section \<open>Python values used by the directory service\<close>

text \<open>
  The service keeps buildings, categories and companies in a relational store and
  exposes them through request handlers. Python integers are unbounded (\<open>int\<close>),
  Python floats are idealised as \<open>real\<close> numbers, strings are character lists, and
  a nullable column is an \<open>option\<close>. \<open>HTTPException(status_code, detail)\<close> is the
  error the handlers raise themselves; its status code is kept, the detail text is
  not. \<open>OverflowError\<close> is what the database driver raises when a query parameter is
  an integer outside the signed 64-bit range of the store's keys.
\<close>

datatype error = HTTPException (status_code: nat) | OverflowError

text \<open>Truth value of an optional integer or string in an \<open>if\<close>: \<open>None\<close>, \<open>0\<close> and the
  empty string are false.\<close>

definition truthy_int :: "int option \<Rightarrow> bool" where
  "truthy_int x = (case x of None \<Rightarrow> False | Some i \<Rightarrow> i \<noteq> 0)"

definition truthy_str :: "string option \<Rightarrow> bool" where
  "truthy_str x = (case x of None \<Rightarrow> False | Some s \<Rightarrow> s \<noteq> [])"

text \<open>\<open>str(n)\<close> for an integer: decimal digits, with a leading minus sign.\<close>

definition digit_char :: "nat \<Rightarrow> char" where
  "digit_char d =
     (if d = 0 then CHR ''0'' else if d = 1 then CHR ''1'' else if d = 2 then CHR ''2''
      else if d = 3 then CHR ''3'' else if d = 4 then CHR ''4'' else if d = 5 then CHR ''5''
      else if d = 6 then CHR ''6'' else if d = 7 then CHR ''7'' else if d = 8 then CHR ''8''
      else CHR ''9'')"

fun str_nat :: "nat \<Rightarrow> string" where
  "str_nat n = (if n < 10 then [digit_char n] else str_nat (n div 10) @ [digit_char (n mod 10)])"

declare str_nat.simps [simp del]

definition str_int :: "int \<Rightarrow> string" where
  "str_int i = (if i < 0 then CHR ''-'' # str_nat (nat (- i)) else str_nat (nat i))"

text \<open>\<open>sep.join(xs)\<close> and \<open>s.split(sep)\<close> for the one-character separator the service
  uses. Splitting never returns an empty list: the empty string splits into one empty
  field.\<close>

fun join :: "string \<Rightarrow> string list \<Rightarrow> string" where
  "join sep [] = []"
| "join sep [x] = x"
| "join sep (x # y # ys) = x @ sep @ join sep (y # ys)"

fun split :: "char \<Rightarrow> string \<Rightarrow> string list" where
  "split d [] = [[]]"
| "split d (c # cs) =
     (if c = d then [] # split d cs
      else (case split d cs of [] \<Rightarrow> [[c]] | w # ws \<Rightarrow> (c # w) # ws))"

section \<open>The store (models.py)\<close>

text \<open>
  One record per table row; the two timestamp columns are left out. A table is the
  list of its rows in insertion order, \<open>query.filter(id == k).first()\<close> is \<open>find\<close>.
  The many-to-many association table holds (company id, category id) pairs.
  The \<open>path\<close> of a category is nullable and is NULL between the insert of the row
  and the update of its path; its \<open>level\<close> has the column default 0 and is set by
  every insert of the service, so it is an integer.
\<close>

record building =
  bld_id :: int
  address :: string
  latitude :: real
  longitude :: real

record category =
  cat_id :: int
  cat_name :: string
  parent_id :: "int option"
  level :: int
  path :: "string option"

record company =
  co_id :: int
  co_name :: string
  phones :: string
  description :: "string option"
  website :: "string option"
  email :: "string option"
  building_id :: int
  is_active :: int

record db =
  buildings :: "building list"
  categories :: "category list"
  companies :: "company list"
  company_categories :: "(int \<times> int) list"

definition empty_db :: db where
  "empty_db = \<lparr>buildings = [], categories = [], companies = [], company_categories = []\<rparr>"

text \<open>
  An integer primary key that the caller leaves out is assigned by the store
  (db.py opens an SQLite file): one more than the largest key in the table, 1 for an
  empty table. (When the largest key is the largest 64-bit integer SQLite tries
  unused keys at random instead; no handler writes a key of its own choice, so the
  tables the handlers build do not get there, and \<open>next_id\<close> does not follow
  that case.)
\<close>

fun max_id :: "int list \<Rightarrow> int" where
  "max_id [] = 0"
| "max_id (x # xs) = (if xs = [] then x else max x (max_id xs))"

definition next_id :: "int list \<Rightarrow> int" where
  "next_id ids = max_id ids + 1"

definition find_building :: "db \<Rightarrow> int \<Rightarrow> building option" where
  "find_building s k = find (\<lambda>b. bld_id b = k) (buildings s)"

text \<open>
  A key of the store is a signed 64-bit integer. A query whose parameter is a Python
  integer outside that range does not reach the table: binding the parameter raises
  \<open>OverflowError\<close>. The category lookup carries this error, since the helpers of
  utils.py look up the ids their callers pass; the building and the company lookup
  are modelled for keys inside the range.
\<close>

definition in_int64 :: "int \<Rightarrow> bool" where
  "in_int64 k = (- 9223372036854775808 \<le> k \<and> k \<le> 9223372036854775807)"

definition find_category :: "db \<Rightarrow> int \<Rightarrow> error + category option" where
  "find_category s k =
     (if in_int64 k then Inr (find (\<lambda>c. cat_id c = k) (categories s)) else Inl OverflowError)"

definition find_company :: "db \<Rightarrow> int \<Rightarrow> company option" where
  "find_company s k = find (\<lambda>c. co_id c = k) (companies s)"

section \<open>utils.py\<close>

subsection \<open>calculate\_distance\_haversine\<close>

definition radians :: "real \<Rightarrow> real" where
  "radians d = d * (pi / 180)"

definition calculate_distance_haversine :: "real \<Rightarrow> real \<Rightarrow> real \<Rightarrow> real \<Rightarrow> real" where
  "calculate_distance_haversine lat1 lon1 lat2 lon2 =
     (let la1 = radians lat1; lo1 = radians lon1; la2 = radians lat2; lo2 = radians lon2;
          dlat = la2 - la1;
          dlon = lo2 - lo1;
          a = (sin (dlat / 2))\<^sup>2 + cos la1 * cos la2 * (sin (dlon / 2))\<^sup>2;
          c = 2 * arcsin (sqrt a);
          r = 6371
      in c * r)"

subsection \<open>update\_category\_path\<close>

text \<open>
  The function assigns \<open>path\<close> and \<open>level\<close> of the object it is given and returns
  nothing; the model returns the object after the assignments. With a parent id that
  is set (not \<open>None\<close>, not \<open>0\<close>) but names no row, nothing is assigned.
\<close>

definition update_category_path :: "db \<Rightarrow> category \<Rightarrow> error + category" where
  "update_category_path s category =
     (if truthy_int (parent_id category) then
        (case find_category s (the (parent_id category)) of
           Inl e \<Rightarrow> Inl e
         | Inr (Some parent) \<Rightarrow>
             Inr (category\<lparr>path := Some ((if truthy_str (path parent) then the (path parent)
                                          else str_int (cat_id parent))
                                         @ ''/'' @ str_int (cat_id category)),
                           level := level parent + 1\<rparr>)
         | Inr None \<Rightarrow> Inr category)
      else Inr (category\<lparr>path := Some (str_int (cat_id category)), level := 0\<rparr>))"

subsection \<open>get\_all\_child\_category\_ids\<close>

text \<open>
  \<open>column.like(pattern)\<close> is the store's \<open>LIKE\<close>: in the pattern \<open>%\<close> stands for any
  run of characters and \<open>_\<close> for any one character, and SQLite compares ASCII letters
  without regard to case. A row whose column is NULL satisfies neither \<open>LIKE\<close> nor
  \<open>=\<close>.
\<close>

definition like_fold :: "char \<Rightarrow> char" where
  "like_fold c = (let n = (of_char c :: nat) in if 65 \<le> n \<and> n \<le> 90 then char_of (n + 32) else c)"

fun sql_like :: "string \<Rightarrow> string \<Rightarrow> bool" where
  "sql_like [] s = (s = [])"
| "sql_like (p # ps) [] = (p = CHR ''%'' \<and> sql_like ps [])"
| "sql_like (p # ps) (c # cs) =
     (if p = CHR ''%'' then sql_like ps (c # cs) \<or> sql_like (p # ps) cs
      else (p = CHR ''_'' \<or> like_fold p = like_fold c) \<and> sql_like ps cs)"

definition path_matches :: "string \<Rightarrow> category \<Rightarrow> bool" where
  "path_matches p c =
     (case path c of None \<Rightarrow> False | Some q \<Rightarrow> sql_like (p @ ''/%'') q \<or> q = p)"

definition get_all_child_category_ids :: "db \<Rightarrow> int \<Rightarrow> error + int list" where
  "get_all_child_category_ids s category_id =
     (case find_category s category_id of
        Inl e \<Rightarrow> Inl e
      | Inr None \<Rightarrow> Inr [category_id]
      | Inr (Some category) \<Rightarrow>
          if truthy_str (path category) then
            (let children = filter (path_matches (the (path category))) (categories s)
             in Inr ([category_id]
                     @ map cat_id (filter (\<lambda>child. cat_id child \<noteq> category_id) children)))
          else Inr [category_id])"

section \<open>routers/categories.py\<close>

record category_create =
  cc_name :: string
  cc_parent_id :: "int option"

text \<open>
  \<open>db.add(obj); db.commit(); db.refresh(obj)\<close> on a new category: the row is appended
  with the key the store assigns, the column default \<open>level = 0\<close> and a NULL path.
  A later \<open>db.commit()\<close> of the changed object rewrites \<open>path\<close> and \<open>level\<close> of
  the row with the object's key.
\<close>

definition add_category :: "db \<Rightarrow> string \<Rightarrow> int option \<Rightarrow> db \<times> category" where
  "add_category s nm par =
     (let c = \<lparr>cat_id = next_id (map cat_id (categories s)), cat_name = nm,
                parent_id = par, level = 0, path = None\<rparr>
      in (s\<lparr>categories := categories s @ [c]\<rparr>, c))"

definition save_category :: "db \<Rightarrow> category \<Rightarrow> db" where
  "save_category s c =
     s\<lparr>categories :=
         map (\<lambda>r. if cat_id r = cat_id c then r\<lparr>path := path c, level := level c\<rparr> else r)
           (categories s)\<rparr>"

text \<open>
  \<open>create_category\<close> returns the store states it commits, in order, and the response.
  The check of the parent raises before anything is committed; the handler commits
  once after the insert and once after the path update.
\<close>

definition create_category :: "db \<Rightarrow> category_create \<Rightarrow> db list \<times> (error + category)" where
  "create_category s req =
     (case (if truthy_int (cc_parent_id req)
            then (case find_category s (the (cc_parent_id req)) of
                    Inl e \<Rightarrow> Some e
                  | Inr None \<Rightarrow> Some (HTTPException 404)
                  | Inr (Some parent) \<Rightarrow> None)
            else None) of
        Some e \<Rightarrow> ([], Inl e)
      | None \<Rightarrow>
          (let (s1, c1) = add_category s (cc_name req) (cc_parent_id req)
           in case update_category_path s1 c1 of
                Inl e \<Rightarrow> ([s1], Inl e)
              | Inr c2 \<Rightarrow> ([s1, save_category s1 c2], Inr c2)))"

definition store_after :: "db \<Rightarrow> db list \<Rightarrow> db" where
  "store_after s commits = last (s # commits)"

section \<open>routers/buildings.py\<close>

text \<open>
  \<open>db.delete(building)\<close> removes the row with the building's key and, by the
  relationship's cascade, the companies of the building with their association rows.
\<close>

definition delete_building_row :: "db \<Rightarrow> building \<Rightarrow> db" where
  "delete_building_row s b =
     (let gone = map co_id (filter (\<lambda>c. building_id c = bld_id b) (companies s))
      in s\<lparr>buildings := filter (\<lambda>r. bld_id r \<noteq> bld_id b) (buildings s),
           companies := filter (\<lambda>c. building_id c \<noteq> bld_id b) (companies s),
           company_categories := filter (\<lambda>(co, ca). co \<notin> set gone) (company_categories s)\<rparr>)"

definition delete_building :: "db \<Rightarrow> int \<Rightarrow> db \<times> (error + string)" where
  "delete_building s bid =
     (case find_building s bid of
        None \<Rightarrow> (s, Inl (HTTPException 404))
      | Some db_building \<Rightarrow>
          (let companies_count = length (filter (\<lambda>c. building_id c = bid) (companies s))
           in if companies_count > 0 then (s, Inl (HTTPException 400))
              else (delete_building_row s db_building, Inr ''Building deleted successfully'')))"

section \<open>routers/companies.py\<close>

record company_create =
  cr_name :: string
  cr_phones :: "string list"
  cr_description :: "string option"
  cr_website :: "string option"
  cr_email :: "string option"
  cr_building_id :: int
  cr_category_ids :: "int list"
  cr_is_active :: bool

text \<open>
  The object a handler returns: the company's columns with \<open>phones\<close> replaced by a
  list and \<open>is_active\<close> by a boolean, and the related building and categories. The
  categories are loaded through the association table, in the order of its rows.
\<close>

record company_out =
  out_id :: int
  out_name :: string
  out_phones :: "string list"
  out_description :: "string option"
  out_website :: "string option"
  out_email :: "string option"
  out_is_active :: bool
  out_building :: "building option"
  out_categories :: "category list"

definition company_view :: "db \<Rightarrow> company \<Rightarrow> string list \<Rightarrow> company_out" where
  "company_view s c ph =
     \<lparr>out_id = co_id c, out_name = co_name c, out_phones = ph,
      out_description = description c, out_website = website c, out_email = email c,
      out_is_active = (is_active c \<noteq> 0),
      out_building = find_building s (building_id c),
      out_categories =
        List.map_filter
          (\<lambda>(co, ca). if co = co_id c then find (\<lambda>k. cat_id k = ca) (categories s) else None)
          (company_categories s)\<rparr>"

definition create_company :: "db \<Rightarrow> company_create \<Rightarrow> db \<times> (error + company_out)" where
  "create_company s req =
     (case find_building s (cr_building_id req) of
        None \<Rightarrow> (s, Inl (HTTPException 404))
      | Some b \<Rightarrow>
          (let cats = filter (\<lambda>c. cat_id c \<in> set (cr_category_ids req)) (categories s)
           in if length cats \<noteq> length (cr_category_ids req) then (s, Inl (HTTPException 404))
              else
                (let c = \<lparr>co_id = next_id (map co_id (companies s)), co_name = cr_name req,
                           phones = join '','' (cr_phones req),
                           description = cr_description req, website = cr_website req,
                           email = cr_email req, building_id = cr_building_id req,
                           is_active = (if cr_is_active req then 1 else 0)\<rparr>;
                     s' = s\<lparr>companies := companies s @ [c],
                             company_categories :=
                               company_categories s @ map (\<lambda>k. (co_id c, cat_id k)) cats\<rparr>
                 in (s', Inr (company_view s' c (split CHR '','' (phones c)))))))"

definition get_company :: "db \<Rightarrow> int \<Rightarrow> error + company_out" where
  "get_company s company_id =
     (case find_company s company_id of
        None \<Rightarrow> Inl (HTTPException 404)
      | Some c \<Rightarrow>
          Inr (company_view s c (if phones c \<noteq> [] then split CHR '','' (phones c) else [])))"

text \<open>
  \<open>db.query(Company).join(Building)\<close>, with the filter on the active flag: each
  company with the building row its \<open>building_id\<close> names, in the order of the
  companies.
\<close>

definition base_query :: "db \<Rightarrow> bool \<Rightarrow> (company \<times> building) list" where
  "base_query s active_only =
     (let joined = concat (map (\<lambda>c. map (Pair c) (filter (\<lambda>b. bld_id b = building_id c) (buildings s)))
                     (companies s))
      in if active_only then filter (\<lambda>(c, b). is_active c = 1) joined else joined)"

text \<open>The loop of the radius search, with \<open>filtered_companies\<close> as accumulator.\<close>

fun radius_loop ::
  "real \<Rightarrow> real \<Rightarrow> real \<Rightarrow> (company \<times> building) list \<Rightarrow> (company \<times> building) list
    \<Rightarrow> (company \<times> building) list" where
  "radius_loop lat lon radius_km [] filtered_companies = filtered_companies"
| "radius_loop lat lon radius_km (cb # rest) filtered_companies =
     (let distance = calculate_distance_haversine lat lon (latitude (snd cb)) (longitude (snd cb))
      in if distance \<le> radius_km
         then radius_loop lat lon radius_km rest (filtered_companies @ [cb])
         else radius_loop lat lon radius_km rest filtered_companies)"

definition in_rectangle :: "real \<Rightarrow> real \<Rightarrow> real \<Rightarrow> real \<Rightarrow> building \<Rightarrow> bool" where
  "in_rectangle min_lat max_lat min_lng max_lng b =
     (latitude b \<ge> min_lat \<and> latitude b \<le> max_lat \<and> longitude b \<ge> min_lng \<and> longitude b \<le> max_lng)"

definition location_view :: "db \<Rightarrow> company \<times> building \<Rightarrow> company_out" where
  "location_view s cb =
     company_view s (fst cb) (if phones (fst cb) \<noteq> [] then split CHR '','' (phones (fst cb)) else [])"

definition get_companies_by_location ::
  "db \<Rightarrow> real \<Rightarrow> real \<Rightarrow> real option \<Rightarrow> real option \<Rightarrow> real option \<Rightarrow> real option \<Rightarrow> real option
    \<Rightarrow> bool \<Rightarrow> error + company_out list" where
  "get_companies_by_location s lat lon radius_km min_lat max_lat min_lng max_lng active_only =
     (if radius_km \<noteq> None then
        Inr (map (location_view s) (radius_loop lat lon (the radius_km) (base_query s active_only) []))
      else if min_lat \<noteq> None \<and> max_lat \<noteq> None \<and> min_lng \<noteq> None \<and> max_lng \<noteq> None then
        (if the min_lat \<ge> the max_lat \<or> the min_lng \<ge> the max_lng then Inl (HTTPException 400)
         else Inr (map (location_view s)
                (filter (\<lambda>(c, b). in_rectangle (the min_lat) (the max_lat) (the min_lng) (the max_lng) b)
                   (base_query s active_only))))
      else Inl (HTTPException 400))"

section \<open>Notions used in the statements\<close>


text \<open>
  The materialized-path invariant in the specification's words, for a row \<open>c\<close> of the
  table \<open>cats\<close>: with a parent row \<open>p\<close>, \<open>path c = path p + "/" + str(id)\<close> and
  \<open>level c = level p + 1\<close>; without one, \<open>path c = str(id)\<close> and \<open>level c = 0\<close>.
\<close>

definition spec_path_invariant :: "category list \<Rightarrow> category \<Rightarrow> bool" where
  "spec_path_invariant cats c =
     (case (case parent_id c of None \<Rightarrow> None | Some k \<Rightarrow> find (\<lambda>p. cat_id p = k) cats) of
        Some p \<Rightarrow>
          (case path p of
             None \<Rightarrow> False
           | Some pp \<Rightarrow> path c = Some (pp @ ''/'' @ str_int (cat_id c)))
          \<and> level c = level p + 1
      | None \<Rightarrow> path c = Some (str_int (cat_id c)) \<and> level c = 0)"


text \<open>
  Atomicity in the specification's words: every state an operation commits is the
  state before it or the state after it.
\<close>

definition spec_atomic :: "db \<Rightarrow> db list \<Rightarrow> bool" where
  "spec_atomic s commits = list_all (\<lambda>s'. s' = s \<or> s' = store_after s commits) commits"

subsection \<open>Example stores\<close>

definition demo_db :: db where
  "demo_db =
     \<lparr>buildings =
        [\<lparr>bld_id = 1, address = ''Bluchera 32/1'', latitude = 0, longitude = 0\<rparr>,
         \<lparr>bld_id = 2, address = ''Lenina 15'', latitude = 0, longitude = 180\<rparr>,
         \<lparr>bld_id = 3, address = ''Mira 100'', latitude = 0, longitude = 0\<rparr>],
      categories =
        [\<lparr>cat_id = 1, cat_name = ''Food'', parent_id = None, level = 0, path = Some ''1''\<rparr>,
         \<lparr>cat_id = 2, cat_name = ''Meat'', parent_id = Some 1, level = 1, path = Some ''1/2''\<rparr>],
      companies =
        [\<lparr>co_id = 1, co_name = ''Roga i Kopyta'', phones = ''2-222-222,3-333-333'',
          description = None, website = None, email = Some ''info@roga-kopyta.ru'',
          building_id = 1, is_active = 1\<rparr>,
         \<lparr>co_id = 2, co_name = ''Eco Farm'', phones = ''8-800-555-35-35'',
          description = None, website = None, email = None,
          building_id = 2, is_active = 1\<rparr>],
      company_categories = [(1, 2), (2, 1)]\<rparr>"


text \<open>Stores with rows whose path is NULL, empty, or holds a wildcard or a letter.\<close>

definition pathless_db :: db where
  "pathless_db = empty_db\<lparr>categories :=
     [\<lparr>cat_id = 1, cat_name = ''Food'', parent_id = None, level = 0, path = None\<rparr>,
      \<lparr>cat_id = 2, cat_name = ''Cars'', parent_id = None, level = 0, path = Some []\<rparr>,
      \<lparr>cat_id = 3, cat_name = ''Sport'', parent_id = None, level = 0, path = Some []\<rparr>]\<rparr>"



text \<open>Requests to create a company, with two phones and with one empty phone.\<close>

definition two_phones_request :: company_create where
  "two_phones_request =
     \<lparr>cr_name = ''Avtomir'', cr_phones = [''1-111-111'', ''2-222-222''], cr_description = None,
      cr_website = None, cr_email = None, cr_building_id = 3, cr_category_ids = [1],
      cr_is_active = True\<rparr>"

definition blank_phone_request :: company_create where
  "blank_phone_request =
     \<lparr>cr_name = ''Avtomir'', cr_phones = [[]], cr_description = None,
      cr_website = None, cr_email = None, cr_building_id = 3, cr_category_ids = [1],
      cr_is_active = True\<rparr>"

section \<open>Properties\<close>

subsection \<open>Auxiliary facts\<close>

lemma max_id_ge: "x \<in> set xs \<Longrightarrow> x \<le> max_id xs"
  by (induction xs) (auto split: if_splits)

lemma next_id_fresh: "next_id xs \<notin> set xs"
  using max_id_ge [of "next_id xs" xs] by (auto simp: next_id_def)

lemma find_snoc:
  "find P (xs @ [x]) =
     (case find P xs of Some y \<Rightarrow> Some y | None \<Rightarrow> if P x then Some x else None)"
  by (induction xs) auto

lemma find_fresh_none: "k \<notin> set (map f xs) \<Longrightarrow> find (\<lambda>r. f r = k) xs = None"
  by (auto simp: find_None_iff)

lemma map_fresh_id: "k \<notin> set (map f xs) \<Longrightarrow> map (\<lambda>r. if f r = k then g r else r) xs = xs"
  by (induction xs) auto

lemma filter_none: "length (filter P xs) = 0 \<Longrightarrow> filter (\<lambda>x. \<not> P x) xs = xs"
  by (induction xs) (auto split: if_splits)


subsection \<open>The store's LIKE on literal patterns\<close>





subsection \<open>The category lookup\<close>

lemma find_category_Inr:
  "find_category s k = Inr r \<longleftrightarrow> in_int64 k \<and> r = find (\<lambda>c. cat_id c = k) (categories s)"
  by (auto simp: find_category_def)

lemma find_category_Inl:
  "find_category s k = Inl e \<longleftrightarrow> \<not> in_int64 k \<and> e = OverflowError"
  by (auto simp: find_category_def)

lemma find_category_snoc:
  "find_category s k = Inr (Some p) \<Longrightarrow>
     find_category (s\<lparr>categories := categories s @ [c]\<rparr>) k = Inr (Some p)"
  by (auto simp: find_category_def find_snoc split: if_splits)

subsection \<open>Steps of category creation\<close>

lemma add_category_row:
  "add_category s nm par = (s1, c1) \<Longrightarrow>
     s1 = s\<lparr>categories := categories s @ [c1]\<rparr>
     \<and> cat_id c1 \<notin> set (map cat_id (categories s))
     \<and> parent_id c1 = par \<and> path c1 = None \<and> level c1 = 0 \<and> cat_name c1 = nm"
  using next_id_fresh [of "map cat_id (categories s)"]
  by (auto simp: add_category_def Let_def)

lemma save_category_new:
  assumes "s1 = s\<lparr>categories := cs @ [c1]\<rparr>" "cat_id c1 \<notin> set (map cat_id cs)"
    "cat_id c2 = cat_id c1" "cat_name c2 = cat_name c1" "parent_id c2 = parent_id c1"
  shows "save_category s1 c2 = s\<lparr>categories := cs @ [c2]\<rparr>"
  using assms
    map_fresh_id [of "cat_id c1" cat_id cs "\<lambda>r. r\<lparr>path := path c2, level := level c2\<rparr>"]
  by (simp add: save_category_def)

lemma update_category_path_keeps:
  "update_category_path s c = Inr c' \<Longrightarrow>
     cat_id c' = cat_id c \<and> cat_name c' = cat_name c \<and> parent_id c' = parent_id c"
  by (auto simp: update_category_path_def split: if_splits sum.splits option.splits)

text \<open>After the check of the parent has passed, the path update cannot raise.\<close>

lemma update_after_check:
  assumes a: "add_category s nm par = (s1, c1)"
    and chk: "truthy_int par \<longrightarrow> (\<exists>p. find_category s (the par) = Inr (Some p))"
  shows "\<exists>c. update_category_path s1 c1 = Inr c"
proof (cases "truthy_int par")
  case True
  with chk obtain p where "find_category s (the par) = Inr (Some p)" by blast
  then have "find_category (s\<lparr>categories := categories s @ [c1]\<rparr>) (the par) = Inr (Some p)"
    by (rule find_category_snoc)
  with True add_category_row [OF a] show ?thesis
    by (simp add: update_category_path_def)
next
  case False
  with add_category_row [OF a] show ?thesis
    by (simp add: update_category_path_def)
qed

lemma create_category_ok:
  assumes "create_category s req = (commits, Inr c)"
  obtains s1 c1 where "add_category s (cc_name req) (cc_parent_id req) = (s1, c1)"
    "update_category_path s1 c1 = Inr c" "commits = [s1, save_category s1 c]"
    "truthy_int (cc_parent_id req) \<longrightarrow>
       (\<exists>p. find_category s (the (cc_parent_id req)) = Inr (Some p))"
  using assms
  by (cases "add_category s (cc_name req) (cc_parent_id req)")
     (auto simp: create_category_def split: if_splits sum.splits option.splits)

lemma create_category_rejected:
  assumes "create_category s req = (commits, Inl e)"
  shows "commits = []"
proof (cases "add_category s (cc_name req) (cc_parent_id req)")
  case (Pair s1 c1)
  show ?thesis
  proof (cases "truthy_int (cc_parent_id req) \<longrightarrow>
       (\<exists>p. find_category s (the (cc_parent_id req)) = Inr (Some p))")
    case True
    from update_after_check [OF Pair True] obtain c where
      "update_category_path s1 c1 = Inr c" by blast
    with assms Pair True show ?thesis
      by (auto simp: create_category_def split: if_splits sum.splits option.splits)
  next
    case False
    with assms show ?thesis
      by (auto simp: create_category_def split: if_splits sum.splits option.splits)
  qed
qed

lemma create_category_shape:
  assumes ok: "create_category s req = (commits, Inr c)"
  shows "commits = [s\<lparr>categories := categories s @ [c\<lparr>path := None, level := 0\<rparr>]\<rparr>,
                    s\<lparr>categories := categories s @ [c]\<rparr>]
       \<and> cat_id c \<notin> set (map cat_id (categories s))
       \<and> parent_id c = cc_parent_id req \<and> cat_name c = cc_name req"
proof -
  from ok obtain s1 c1 where a: "add_category s (cc_name req) (cc_parent_id req) = (s1, c1)"
    and c: "update_category_path s1 c1 = Inr c" and cm: "commits = [s1, save_category s1 c]"
    by (rule create_category_ok)
  note row = add_category_row [OF a]
  have keep: "cat_id c = cat_id c1" "cat_name c = cat_name c1" "parent_id c = parent_id c1"
    using update_category_path_keeps [OF c] by simp_all
  have c1: "c1 = c\<lparr>path := None, level := 0\<rparr>"
    using keep row by simp
  have s2: "save_category s1 c = s\<lparr>categories := categories s @ [c]\<rparr>"
    using save_category_new [where ?s1.0 = s1 and s = s and cs = "categories s" and ?c1.0 = c1
        and ?c2.0 = c] row keep by simp
  from row c1 have s1: "s1 = s\<lparr>categories := categories s @ [c\<lparr>path := None, level := 0\<rparr>]\<rparr>"
    by simp
  have cm': "commits = [s\<lparr>categories := categories s @ [c\<lparr>path := None, level := 0\<rparr>]\<rparr>,
                    s\<lparr>categories := categories s @ [c]\<rparr>]"
    unfolding cm s2 unfolding s1 ..
  have fresh: "cat_id c \<notin> set (map cat_id (categories s))"
    using row keep by simp
  have par: "parent_id c = cc_parent_id req" "cat_name c = cc_name req"
    using row keep by simp_all
  from cm' fresh par show ?thesis by blast
qed

text \<open>
  A parent id other than 0 that names no category: inside the range of the keys the
  handler answers 404, outside it the lookup raises; nothing is committed either way.
\<close>

lemma create_category_unknown_parent:
  assumes "cc_parent_id req = Some k" "k \<noteq> 0" "find_category s k = Inr None"
  shows "create_category s req = ([], Inl (HTTPException 404))"
  using assms by (simp add: create_category_def truthy_int_def)

lemma create_category_parent_out_of_range:
  assumes "cc_parent_id req = Some k" "\<not> in_int64 k"
  shows "create_category s req = ([], Inl OverflowError)"
proof -
  from assms(2) have "k \<noteq> 0" by (auto simp: in_int64_def)
  with assms show ?thesis
    by (simp add: create_category_def truthy_int_def find_category_def)
qed

subsection \<open>Phone lists\<close>

lemma split_plain: "d \<notin> set x \<Longrightarrow> split d x = [x]"
  by (induction x) auto

lemma split_field: "d \<notin> set x \<Longrightarrow> split d (x @ d # r) = x # split d r"
  by (induction x) auto

lemma split_join:
  "xs \<noteq> [] \<Longrightarrow> \<forall>x \<in> set xs. d \<notin> set x \<Longrightarrow> split d (join [d] xs) = xs"
proof (induction "[d]" xs rule: join.induct)
  case 1
  then show ?case by simp
next
  case (2 x)
  then show ?case by (simp add: split_plain)
next
  case (3 x y ys)
  then show ?case by (simp add: split_field)
qed

lemma join_empty: "xs \<noteq> [] \<Longrightarrow> join [d] xs = [] \<Longrightarrow> xs = [[]]"
  by (induction "[d]" xs rule: join.induct) auto

subsection \<open>The radius loop\<close>

lemma radius_loop_filter:
  "radius_loop lat lon r cs acc =
     acc @ filter (\<lambda>cb. calculate_distance_haversine lat lon (latitude (snd cb))
                          (longitude (snd cb)) \<le> r) cs"
  by (induction cs arbitrary: acc) (simp_all add: Let_def)

subsection \<open>The result of category creation\<close>

lemma create_category_result:
  assumes ok: "create_category s req = (commits, Inr c)"
  shows "store_after s commits = s\<lparr>categories := categories s @ [c]\<rparr>
       \<and> cat_id c = next_id (map cat_id (categories s))
       \<and> parent_id c = cc_parent_id req
       \<and> (if truthy_int (cc_parent_id req)
          then \<exists>p. find_category s (the (cc_parent_id req)) = Inr (Some p)
                 \<and> path c = Some ((if truthy_str (path p) then the (path p) else str_int (cat_id p))
                                   @ ''/'' @ str_int (cat_id c))
                 \<and> level c = level p + 1
          else path c = Some (str_int (cat_id c)) \<and> level c = 0)"
proof -
  from ok obtain s1 c1 where a: "add_category s (cc_name req) (cc_parent_id req) = (s1, c1)"
    and c: "update_category_path s1 c1 = Inr c"
    and chk: "truthy_int (cc_parent_id req) \<longrightarrow>
       (\<exists>p. find_category s (the (cc_parent_id req)) = Inr (Some p))"
    by (rule create_category_ok)
  note row = add_category_row [OF a]
  note shape = create_category_shape [OF ok]
  have keep: "cat_id c = cat_id c1"
    using update_category_path_keeps [OF c] by simp
  have i: "cat_id c = next_id (map cat_id (categories s))"
    using keep a by (auto simp: add_category_def Let_def)
  have fin: "store_after s commits = s\<lparr>categories := categories s @ [c]\<rparr>"
    using shape by (simp add: store_after_def)
  have par: "parent_id c = cc_parent_id req" using shape by simp
  show ?thesis
  proof (cases "truthy_int (cc_parent_id req)")
    case False
    then have "path c = Some (str_int (cat_id c)) \<and> level c = 0"
      using c row by (auto simp: update_category_path_def)
    with fin i par False show ?thesis by simp
  next
    case True
    with chk obtain p where p: "find_category s (the (cc_parent_id req)) = Inr (Some p)"
      by blast
    then have "find_category (s\<lparr>categories := categories s @ [c1]\<rparr>) (the (cc_parent_id req))
        = Inr (Some p)"
      by (rule find_category_snoc)
    with row have p1: "find_category s1 (the (cc_parent_id req)) = Inr (Some p)" by simp
    have "path c = Some ((if truthy_str (path p) then the (path p) else str_int (cat_id p))
                                   @ ''/'' @ str_int (cat_id c)) \<and> level c = level p + 1"
      using c row True p1 by (auto simp: update_category_path_def)
    with fin i par True p show ?thesis by auto
  qed
qed

text \<open>
  On a store whose categories all have a positive id and a non-empty path (the empty
  store is one), creation keeps these two properties and the new row satisfies the
  invariant in the specification's words.
\<close>

lemma max_id_pos: "xs \<noteq> [] \<Longrightarrow> \<forall>x \<in> set xs. 0 < x \<Longrightarrow> 0 < max_id xs"
  by (induction xs) (auto split: if_splits)

lemma next_id_pos: "\<forall>x \<in> set xs. 0 < x \<Longrightarrow> 0 < next_id xs"
  using max_id_pos [of xs] by (cases "xs = []") (auto simp: next_id_def)

lemma create_category_keeps_spec_invariant:
  assumes ok: "create_category s req = (commits, Inr c)"
    and inv: "\<forall>p \<in> set (categories s). 0 < cat_id p \<and> truthy_str (path p)"
  shows "spec_path_invariant (categories (store_after s commits)) c
       \<and> (\<forall>p \<in> set (categories (store_after s commits)). 0 < cat_id p \<and> truthy_str (path p))"
proof -
  note r = create_category_result [OF ok]
  from r have fin: "categories (store_after s commits) = categories s @ [c]" by simp
  from r have i: "cat_id c = next_id (map cat_id (categories s))" by simp
  have pos: "0 < cat_id c" using i next_id_pos [of "map cat_id (categories s)"] inv by simp
  have zero: "find (\<lambda>p. cat_id p = 0) (categories s @ [c]) = None"
    using inv pos by (auto simp: find_None_iff)
  show ?thesis
  proof (cases "truthy_int (cc_parent_id req)")
    case False
    with r have root: "path c = Some (str_int (cat_id c))" "level c = 0" by simp_all
    from False have "cc_parent_id req = None \<or> cc_parent_id req = Some 0"
      by (auto simp: truthy_int_def split: option.splits)
    with r root zero fin have "spec_path_invariant (categories (store_after s commits)) c"
      by (auto simp: spec_path_invariant_def)
    moreover from root have "truthy_str (path c)"
      by (simp add: truthy_str_def str_int_def str_nat.simps [of "nat (cat_id c)"]
          str_nat.simps [of "nat (- cat_id c)"])
    ultimately show ?thesis using fin inv pos by auto
  next
    case True
    then obtain k where k: "cc_parent_id req = Some k" "k \<noteq> 0"
      by (auto simp: truthy_int_def split: option.splits)
    with r True obtain p where p: "find_category s k = Inr (Some p)"
      and pc: "path c = Some ((if truthy_str (path p) then the (path p) else str_int (cat_id p))
                                   @ ''/'' @ str_int (cat_id c))"
      and lv: "level c = level p + 1" by auto
    from p have pf: "find (\<lambda>x. cat_id x = k) (categories s) = Some p"
      by (simp add: find_category_Inr)
    then have pin: "p \<in> set (categories s)" by (auto simp: find_Some_iff)
    with inv have tp: "truthy_str (path p)" by simp
    then obtain pp where pp: "path p = Some pp" "pp \<noteq> []"
      by (auto simp: truthy_str_def split: option.splits)
    from pf have f: "find (\<lambda>x. cat_id x = k) (categories s @ [c]) = Some p"
      by (simp add: find_snoc)
    have "spec_path_invariant (categories (store_after s commits)) c"
      using r k f pc lv pp tp fin by (simp add: spec_path_invariant_def)
    moreover from pc have "truthy_str (path c)" by (simp add: truthy_str_def)
    ultimately show ?thesis using fin inv pos by auto
  qed
qed

subsection \<open>The argument of the square root and of the arc sine\<close>

text \<open>
  Over the reals the quantity \<open>a\<close> of the Haversine formula lies between 0 and 1 for
  all angles, so \<open>math.sqrt\<close> and \<open>math.asin\<close> are inside their domains and the
  function has no error case.
\<close>

lemma half_angle_sq: "(sin (x / 2))\<^sup>2 = (1 - cos (x::real)) / 2"
  using cos_double_sin [of "x / 2"] by simp

lemma cauchy_two:
  "(a * c + b * d)\<^sup>2 \<le> (a\<^sup>2 + b\<^sup>2) * (c\<^sup>2 + d\<^sup>2)" for a b c d :: real
proof -
  have "(a\<^sup>2 + b\<^sup>2) * (c\<^sup>2 + d\<^sup>2) - (a * c + b * d)\<^sup>2 = (a * d - b * c)\<^sup>2"
    by (simp add: power2_eq_square algebra_simps)
  moreover have "0 \<le> (a * d - b * c)\<^sup>2" by simp
  ultimately show ?thesis by linarith
qed

lemma haversine_argument_range:
  fixes la1 la2 dl :: real
  defines "a \<equiv> (sin ((la2 - la1) / 2))\<^sup>2 + cos la1 * cos la2 * (sin (dl / 2))\<^sup>2"
  shows "0 \<le> a \<and> a \<le> 1"
proof -
  let ?d = "sin la1 * sin la2 + cos la1 * cos la2 * cos dl"
  have a: "a = (1 - ?d) / 2"
    unfolding a_def half_angle_sq cos_diff by (simp add: field_simps)
  have "?d\<^sup>2 \<le> ((sin la1)\<^sup>2 + (cos la1)\<^sup>2) * ((sin la2)\<^sup>2 + (cos la2 * cos dl)\<^sup>2)"
    using cauchy_two [of "sin la1" "sin la2" "cos la1" "cos la2 * cos dl"]
    by (simp add: mult.assoc)
  also have "\<dots> = (sin la2)\<^sup>2 + (cos la2 * cos dl)\<^sup>2" by simp
  also have "\<dots> \<le> 1"
  proof -
    have "(cos dl)\<^sup>2 \<le> 1" using abs_cos_le_one [of dl] by (simp only: abs_square_le_1)
    then have k: "(cos la2)\<^sup>2 * (cos dl)\<^sup>2 \<le> (cos la2)\<^sup>2 * 1"
      by (intro mult_left_mono) simp_all
    have e: "(sin la2)\<^sup>2 = 1 - (cos la2)\<^sup>2" by (rule sin_squared_eq)
    show ?thesis unfolding power_mult_distrib e using k by linarith
  qed
  finally have "?d\<^sup>2 \<le> 1" .
  then have "\<bar>?d\<bar> \<le> 1" by (simp only: abs_square_le_1)
  then have "- 1 \<le> ?d \<and> ?d \<le> 1" by linarith
  with a show ?thesis by simp
qed

subsection \<open>Evaluation on the example stores\<close>

lemmas category_eval = create_category_def truthy_int_def truthy_str_def find_category_def
  in_int64_def
  add_category_def next_id_def Let_def update_category_path_def str_int_def str_nat.simps
  digit_char_def save_category_def store_after_def empty_db_def


lemmas company_eval = create_company_def get_company_def find_building_def find_company_def
  company_view_def next_id_def Let_def demo_db_def


text \<open>
  The scenario of the specification: on the empty store the root category Food gets
  the id 1, the path \<open>1\<close> and the level 0; its child Meat gets the id 2, the path
  \<open>1/2\<close> and the level 1; the subtree of Food is then \<open>[1, 2]\<close>.
\<close>

lemma food_meat_scenario:
  "(let s1 = store_after empty_db
               (fst (create_category empty_db \<lparr>cc_name = ''Food'', cc_parent_id = None\<rparr>));
        s2 = store_after s1
               (fst (create_category s1 \<lparr>cc_name = ''Meat'', cc_parent_id = Some 1\<rparr>))
    in categories s2 =
         [\<lparr>cat_id = 1, cat_name = ''Food'', parent_id = None, level = 0, path = Some ''1''\<rparr>,
          \<lparr>cat_id = 2, cat_name = ''Meat'', parent_id = Some 1, level = 1, path = Some ''1/2''\<rparr>]
       \<and> get_all_child_category_ids s2 1 = Inr [1, 2]
       \<and> get_all_child_category_ids s2 2 = Inr [2])"
  by (simp add: category_eval get_all_child_category_ids_def path_matches_def like_fold_def)

lemma haversine_antipodal_far: "\<not> calculate_distance_haversine 0 0 0 180 \<le> 5"
proof -
  have "calculate_distance_haversine 0 0 0 180 = 6371 * pi"
    unfolding calculate_distance_haversine_def Let_def radians_def by simp
  moreover have "(5::real) < 6371 * pi" using pi_ge_two by simp
  ultimately show ?thesis by simp
qed

lemma haversine_same_point_near: "calculate_distance_haversine 0 0 0 0 \<le> 5"
  unfolding calculate_distance_haversine_def Let_def radians_def by simp

section \<open>The claims\<close>

subsection \<open>C1: path and level of a created category\<close>

text \<open>
  C1, as the code has it. Let \<open>create_category\<close> succeed with the row \<open>c\<close>, for a
  request whose parent id is absent or non-zero. Then \<open>c\<close> is the row stored under
  its id, it carries the requested parent id, and
  \<^item> without a parent id, \<open>path c = str(id)\<close> and \<open>level c = 0\<close>;
  \<^item> with the parent id \<open>k\<close>, the parent row \<open>p\<close> is stored under \<open>k\<close>,
    \<open>level c = level p + 1\<close>, and \<open>path c\<close> is \<open>path p + "/" + str(id)\<close> when the
    parent's path is non-empty, and \<open>str(id of p) + "/" + str(id)\<close> when the parent's
    path is NULL or empty.
\<close>

theorem create_category_path_level:
  assumes ok: "create_category s req = (commits, Inr c)"
    and nz: "cc_parent_id req \<noteq> Some 0"
  shows "find (\<lambda>x. cat_id x = cat_id c) (categories (store_after s commits)) = Some c
       \<and> parent_id c = cc_parent_id req
       \<and> (case cc_parent_id req of
            None \<Rightarrow> path c = Some (str_int (cat_id c)) \<and> level c = 0
          | Some k \<Rightarrow>
              (\<exists>p. find_category (store_after s commits) k = Inr (Some p)
                 \<and> path c = Some ((if truthy_str (path p) then the (path p)
                                    else str_int (cat_id p))
                                   @ ''/'' @ str_int (cat_id c))
                 \<and> level c = level p + 1))"
proof -
  note r = create_category_result [OF ok]
  from r have fin: "store_after s commits = s\<lparr>categories := categories s @ [c]\<rparr>" by simp
  from r have i: "cat_id c = next_id (map cat_id (categories s))" by simp
  have fresh: "find (\<lambda>x. cat_id x = cat_id c) (categories s) = None"
    using i next_id_fresh [of "map cat_id (categories s)"]
      find_fresh_none [of "cat_id c" cat_id "categories s"] by simp
  have stored: "find (\<lambda>x. cat_id x = cat_id c) (categories (store_after s commits)) = Some c"
    using fin fresh by (simp add: find_snoc)
  from r have par: "parent_id c = cc_parent_id req" by simp
  show ?thesis
  proof (cases "cc_parent_id req")
    case None
    with r have "path c = Some (str_int (cat_id c)) \<and> level c = 0"
      by (simp add: truthy_int_def)
    with stored par None show ?thesis by simp
  next
    case (Some k)
    with nz have t: "truthy_int (cc_parent_id req)" by (simp add: truthy_int_def)
    with r Some obtain p where p: "find_category s k = Inr (Some p)"
      and pc: "path c = Some ((if truthy_str (path p) then the (path p) else str_int (cat_id p))
                               @ ''/'' @ str_int (cat_id c))"
      and lv: "level c = level p + 1"
      by auto
    have "find_category (store_after s commits) k = Inr (Some p)"
      unfolding fin using p by (rule find_category_snoc)
    with stored par Some pc lv show ?thesis by simp
  qed
qed

text \<open>
  An instance of C1: under the category 2 (path \<open>1/2\<close>, level 1) of the example
  store, the new category gets the id 3, the path \<open>1/2/3\<close> and the level 2.
\<close>

theorem create_category_path_level_witness:
  "create_category demo_db \<lparr>cc_name = ''Beef'', cc_parent_id = Some 2\<rparr> =
     (fst (create_category demo_db \<lparr>cc_name = ''Beef'', cc_parent_id = Some 2\<rparr>),
      Inr \<lparr>cat_id = 3, cat_name = ''Beef'', parent_id = Some 2, level = 2,
           path = Some ''1/2/3''\<rparr>)
   \<and> find (\<lambda>x. cat_id x = 3)
        (categories (store_after demo_db
           (fst (create_category demo_db \<lparr>cc_name = ''Beef'', cc_parent_id = Some 2\<rparr>))))
      = Some \<lparr>cat_id = 3, cat_name = ''Beef'', parent_id = Some 2, level = 2,
              path = Some ''1/2/3''\<rparr>
   \<and> find_category
        (store_after demo_db
           (fst (create_category demo_db \<lparr>cc_name = ''Beef'', cc_parent_id = Some 2\<rparr>))) 2
      = Inr (Some \<lparr>cat_id = 2, cat_name = ''Meat'', parent_id = Some 1, level = 1,
                   path = Some ''1/2''\<rparr>)"
proof -
  let ?req = "\<lparr>cc_name = ''Beef'', cc_parent_id = Some 2\<rparr>"
  let ?c = "\<lparr>cat_id = 3, cat_name = ''Beef'', parent_id = Some 2, level = 2,
             path = Some ''1/2/3''\<rparr>"
  have "snd (create_category demo_db ?req) = Inr ?c"
    by (simp add: category_eval demo_db_def)
  then have ok: "create_category demo_db ?req = (fst (create_category demo_db ?req), Inr ?c)"
    by (simp add: prod_eq_iff)
  have nz: "cc_parent_id ?req \<noteq> Some 0" by simp
  from create_category_path_level [OF ok nz] have
    st: "find (\<lambda>x. cat_id x = cat_id ?c)
           (categories (store_after demo_db (fst (create_category demo_db ?req)))) = Some ?c"
    by blast
  have "find_category (store_after demo_db (fst (create_category demo_db ?req))) 2 =
      Inr (Some \<lparr>cat_id = 2, cat_name = ''Meat'', parent_id = Some 1, level = 1,
                 path = Some ''1/2''\<rparr>)"
    by (simp add: category_eval demo_db_def)
  with ok st show ?thesis by simp
qed

text \<open>
  C1 as stated fails where the parent's path is NULL or empty. In the store
  \<open>pathless_db\<close> the category 1 has a NULL path and the category 2 an empty one; a
  child of 1 gets the path \<open>1/4\<close> and a child of 2 the path \<open>2/4\<close>, neither of
  which is the parent's path followed by \<open>/4\<close>.
\<close>

theorem create_category_path_level_counterexample:
  "snd (create_category pathless_db \<lparr>cc_name = ''Meat'', cc_parent_id = Some 1\<rparr>) =
     Inr \<lparr>cat_id = 4, cat_name = ''Meat'', parent_id = Some 1, level = 1, path = Some ''1/4''\<rparr>
   \<and> \<not> spec_path_invariant
        (categories (store_after pathless_db
           (fst (create_category pathless_db \<lparr>cc_name = ''Meat'', cc_parent_id = Some 1\<rparr>))))
        \<lparr>cat_id = 4, cat_name = ''Meat'', parent_id = Some 1, level = 1, path = Some ''1/4''\<rparr>
   \<and> snd (create_category pathless_db \<lparr>cc_name = ''Tyres'', cc_parent_id = Some 2\<rparr>) =
     Inr \<lparr>cat_id = 4, cat_name = ''Tyres'', parent_id = Some 2, level = 1, path = Some ''2/4''\<rparr>
   \<and> \<not> spec_path_invariant
        (categories (store_after pathless_db
           (fst (create_category pathless_db \<lparr>cc_name = ''Tyres'', cc_parent_id = Some 2\<rparr>))))
        \<lparr>cat_id = 4, cat_name = ''Tyres'', parent_id = Some 2, level = 1, path = Some ''2/4''\<rparr>"
  by (simp add: category_eval pathless_db_def spec_path_invariant_def)

subsection \<open>C2: the ids of a subtree\<close>




subsection \<open>C3: the radius search\<close>

text \<open>
  C3. The loop of the radius search keeps a candidate exactly when its Haversine
  distance from the origin is at most the radius, and keeps the candidates in their
  order: its result is the candidates filtered by that test. With a radius,
  \<open>get_companies_by_location\<close> returns the views of the candidates so filtered.
\<close>

theorem radius_search_stable_filter:
  "radius_loop lat lon r cs [] =
     filter (\<lambda>cb. calculate_distance_haversine lat lon (latitude (snd cb))
                     (longitude (snd cb)) \<le> r) cs
   \<and> subseq (radius_loop lat lon r cs []) cs
   \<and> (\<forall>cb. cb \<in> set (radius_loop lat lon r cs []) \<longleftrightarrow>
          cb \<in> set cs
          \<and> calculate_distance_haversine lat lon (latitude (snd cb)) (longitude (snd cb)) \<le> r)
   \<and> get_companies_by_location s lat lon (Some r) min_lat max_lat min_lng max_lng active_only =
       Inr (map (location_view s)
         (filter (\<lambda>cb. calculate_distance_haversine lat lon (latitude (snd cb))
                          (longitude (snd cb)) \<le> r)
            (base_query s active_only)))"
  by (simp add: radius_loop_filter get_companies_by_location_def)

text \<open>
  An instance of C3: in the example store the company 1 sits at the origin and the
  company 2 on the opposite side of the equator; a search of 5 km around the origin
  returns the company 1 alone.
\<close>

theorem radius_search_stable_filter_witness:
  "map_sum id (map out_id)
     (get_companies_by_location demo_db 0 0 (Some 5) None None None None True) = Inr [1]"
  using radius_search_stable_filter
      [of 0 0 5 "base_query demo_db True" demo_db None None None None True]
    haversine_antipodal_far haversine_same_point_near
  by (simp add: demo_db_def base_query_def location_view_def company_view_def)

subsection \<open>C4: the arguments of the location search\<close>

text \<open>
  C4, as the code has it. With a radius, \<open>get_companies_by_location\<close> runs the radius
  search and returns its result whatever box bounds come with it. Without a radius it
  fails with status 400 when one of the four bounds is missing, and, when all four
  are given, fails with status 400 exactly when \<open>min_lat \<ge> max_lat\<close> or
  \<open>min_lng \<ge> max_lng\<close> and returns the companies in the box otherwise. The two
  failures hold for every store.
\<close>

theorem location_arguments:
  "(\<forall>r. radius_km = Some r \<longrightarrow>
       get_companies_by_location s lat lon radius_km min_lat max_lat min_lng max_lng active_only =
         Inr (map (location_view s) (radius_loop lat lon r (base_query s active_only) [])))
   \<and> (radius_km = None
        \<and> (min_lat = None \<or> max_lat = None \<or> min_lng = None \<or> max_lng = None) \<longrightarrow>
       get_companies_by_location s lat lon radius_km min_lat max_lat min_lng max_lng active_only =
         Inl (HTTPException 400))
   \<and> (\<forall>a b c d. radius_km = None \<and> min_lat = Some a \<and> max_lat = Some b \<and> min_lng = Some c
          \<and> max_lng = Some d \<longrightarrow>
       get_companies_by_location s lat lon radius_km min_lat max_lat min_lng max_lng active_only =
         (if a \<ge> b \<or> c \<ge> d then Inl (HTTPException 400)
          else Inr (map (location_view s)
                 (filter (\<lambda>(co, bl). in_rectangle a b c d bl) (base_query s active_only)))))"
  by (auto simp: get_companies_by_location_def)

text \<open>
  Instances of C4: no radius with one bound only, with no bound, and with a box whose
  latitudes are equal, each fail with status 400; a radius alone succeeds.
\<close>

theorem location_arguments_witness:
  "get_companies_by_location demo_db 0 0 None (Some 1) None None None True
     = Inl (HTTPException 400)
   \<and> get_companies_by_location demo_db 0 0 None None None None None True
     = Inl (HTTPException 400)
   \<and> get_companies_by_location demo_db 0 0 None (Some 5) (Some 5) (Some 0) (Some 1) True
     = Inl (HTTPException 400)
   \<and> get_companies_by_location empty_db 0 0 (Some 5) None None None None True = Inr []"
  using location_arguments [of None demo_db 0 0 "Some 1" None None None True]
    location_arguments [of None demo_db 0 0 None None None None True]
    location_arguments [of None demo_db 0 0 "Some 5" "Some 5" "Some 0" "Some 1" True]
    location_arguments [of "Some 5" empty_db 0 0 None None None None True]
  by (simp add: empty_db_def base_query_def)

text \<open>
  C4 as stated fails when a radius comes with box bounds: with a radius and a full
  box, with a radius and a box whose minima exceed its maxima, and with a radius and
  a single bound, the search succeeds.
\<close>

theorem location_arguments_counterexample:
  "get_companies_by_location empty_db 0 0 (Some 5) (Some 0) (Some 1) (Some 0) (Some 1) True
     = Inr []
   \<and> get_companies_by_location empty_db 0 0 (Some 5) (Some 1) (Some 0) (Some 1) (Some 0) True
     = Inr []
   \<and> get_companies_by_location empty_db 0 0 (Some 5) (Some 1) None None None True = Inr []"
  by (simp add: get_companies_by_location_def empty_db_def base_query_def)

subsection \<open>C5: the commits of category creation\<close>

text \<open>
  C5, as the code has it. \<open>create_category\<close> commits nothing when it fails. When it
  succeeds with the row \<open>c\<close> it commits twice: first the store with the new row
  carrying its id, a NULL path and the level 0, then the store with the row \<open>c\<close>
  itself. The path of \<open>c\<close> is not NULL, so the two committed states differ, and the
  rows that were there before are the same in both.
\<close>

theorem create_category_commits:
  assumes "create_category s req = (commits, res)"
  shows "case res of
           Inl e \<Rightarrow> commits = []
         | Inr c \<Rightarrow>
             commits = [s\<lparr>categories := categories s @ [c\<lparr>path := None, level := 0\<rparr>]\<rparr>,
                        s\<lparr>categories := categories s @ [c]\<rparr>]
             \<and> path c \<noteq> None
             \<and> s\<lparr>categories := categories s @ [c\<lparr>path := None, level := 0\<rparr>]\<rparr>
                 \<noteq> s\<lparr>categories := categories s @ [c]\<rparr>"
proof (cases res)
  case (Inl e)
  with assms have "create_category s req = (commits, Inl e)" by simp
  then have "commits = []" by (rule create_category_rejected)
  with Inl show ?thesis by simp
next
  case (Inr c)
  with assms have ok: "create_category s req = (commits, Inr c)" by simp
  note shape = create_category_shape [OF ok]
  note r = create_category_result [OF ok]
  have pth: "path c \<noteq> None"
    using r by (cases "truthy_int (cc_parent_id req)") auto
  have ne: "s\<lparr>categories := categories s @ [c\<lparr>path := None, level := 0\<rparr>]\<rparr>
                 \<noteq> s\<lparr>categories := categories s @ [c]\<rparr>"
  proof
    assume "s\<lparr>categories := categories s @ [c\<lparr>path := None, level := 0\<rparr>]\<rparr>
                 = s\<lparr>categories := categories s @ [c]\<rparr>"
    then have "categories (s\<lparr>categories := categories s @ [c\<lparr>path := None, level := 0\<rparr>]\<rparr>)
        = categories (s\<lparr>categories := categories s @ [c]\<rparr>)" by (rule arg_cong)
    then have "c\<lparr>path := None, level := 0\<rparr> = c" by simp
    then have "path (c\<lparr>path := None, level := 0\<rparr>) = path c" by (rule arg_cong)
    with pth show False by simp
  qed
  from shape pth ne Inr show ?thesis by simp
qed

text \<open>
  Instances of C5: creating the first root category commits the row without its path
  and then with it; a request under the unknown parent 5 commits nothing.
\<close>

theorem create_category_commits_witness:
  "create_category empty_db \<lparr>cc_name = ''Food'', cc_parent_id = None\<rparr> =
     ([empty_db\<lparr>categories :=
         [\<lparr>cat_id = 1, cat_name = ''Food'', parent_id = None, level = 0, path = None\<rparr>]\<rparr>,
       empty_db\<lparr>categories :=
         [\<lparr>cat_id = 1, cat_name = ''Food'', parent_id = None, level = 0, path = Some ''1''\<rparr>]\<rparr>],
      Inr \<lparr>cat_id = 1, cat_name = ''Food'', parent_id = None, level = 0, path = Some ''1''\<rparr>)
   \<and> create_category empty_db \<lparr>cc_name = ''Meat'', cc_parent_id = Some 5\<rparr> =
     ([], Inl (HTTPException 404))"
proof -
  let ?r = "\<lparr>cc_name = ''Food'', cc_parent_id = None\<rparr>"
  let ?c = "\<lparr>cat_id = 1, cat_name = ''Food'', parent_id = None, level = 0, path = Some ''1''\<rparr>"
  let ?q = "\<lparr>cc_name = ''Meat'', cc_parent_id = Some 5\<rparr>"
  have "snd (create_category empty_db ?r) = Inr ?c"
    by (simp add: category_eval)
  then have ok: "create_category empty_db ?r = (fst (create_category empty_db ?r), Inr ?c)"
    by (simp add: prod_eq_iff)
  have "snd (create_category empty_db ?q) = Inl (HTTPException 404)"
    by (simp add: category_eval)
  then have bad: "create_category empty_db ?q =
      (fst (create_category empty_db ?q), Inl (HTTPException 404))"
    by (simp add: prod_eq_iff)
  from create_category_commits [OF ok] create_category_commits [OF bad] ok bad
  show ?thesis by (simp add: empty_db_def)
qed

text \<open>
  C5 as stated fails: creating the first root category commits a state that is
  neither the store before the operation nor the store after it, the one in which
  the new row has no path yet.
\<close>

theorem create_category_commits_counterexample:
  "fst (create_category empty_db \<lparr>cc_name = ''Food'', cc_parent_id = None\<rparr>) =
     [empty_db\<lparr>categories :=
        [\<lparr>cat_id = 1, cat_name = ''Food'', parent_id = None, level = 0, path = None\<rparr>]\<rparr>,
      empty_db\<lparr>categories :=
        [\<lparr>cat_id = 1, cat_name = ''Food'', parent_id = None, level = 0, path = Some ''1''\<rparr>]\<rparr>]
   \<and> \<not> spec_atomic empty_db
         (fst (create_category empty_db \<lparr>cc_name = ''Food'', cc_parent_id = None\<rparr>))"
  by (simp add: category_eval spec_atomic_def)

subsection \<open>C6: a parent id that names no category\<close>

text \<open>
  C6 at the request with the parent id 0 on the empty store. No category has the id
  0, yet the request succeeds: the handler tests the parent id for truth, which 0 is
  not, so it looks no parent up, and it stores the row with the parent id 0, the
  path \<open>1\<close> and the level 0. (For a parent id other than 0 that names no category
  the handler commits nothing: it fails with status 404 when the id is inside the
  range of the store's keys, \<open>create_category_unknown_parent\<close>, and the lookup
  raises \<open>OverflowError\<close> when it is outside,
  \<open>create_category_parent_out_of_range\<close>.)
\<close>

theorem create_category_parent_zero:
  "find_category empty_db 0 = Inr None
   \<and> create_category empty_db \<lparr>cc_name = ''Food'', cc_parent_id = Some 0\<rparr> =
     ([empty_db\<lparr>categories :=
         [\<lparr>cat_id = 1, cat_name = ''Food'', parent_id = Some 0, level = 0, path = None\<rparr>]\<rparr>,
       empty_db\<lparr>categories :=
         [\<lparr>cat_id = 1, cat_name = ''Food'', parent_id = Some 0, level = 0, path = Some ''1''\<rparr>]\<rparr>],
      Inr \<lparr>cat_id = 1, cat_name = ''Food'', parent_id = Some 0, level = 0, path = Some ''1''\<rparr>)"
  by (simp add: category_eval)

subsection \<open>C7: deleting a building\<close>

text \<open>
  C7. For a building that exists, \<open>delete_building\<close> fails with status 400 and
  leaves the store as it is when a company refers to the building; when none does,
  it succeeds, the store loses the rows of the building and nothing else, and the
  building is no longer found.
\<close>

theorem delete_building_guard:
  assumes "find_building s bid = Some b"
  shows "if length (filter (\<lambda>c. building_id c = bid) (companies s)) > 0
         then delete_building s bid = (s, Inl (HTTPException 400))
         else delete_building s bid =
                (s\<lparr>buildings := filter (\<lambda>r. bld_id r \<noteq> bid) (buildings s)\<rparr>,
                 Inr ''Building deleted successfully'')
              \<and> find_building (fst (delete_building s bid)) bid = None"
proof -
  from assms have bb: "bld_id b = bid"
    by (auto simp: find_building_def find_Some_iff)
  show ?thesis
  proof (cases "length (filter (\<lambda>c. building_id c = bid) (companies s)) > 0")
    case True
    with assms show ?thesis by (simp add: delete_building_def)
  next
    case False
    then have none: "filter (\<lambda>c. building_id c = bid) (companies s) = []" by simp
    then have keep: "filter (\<lambda>c. building_id c \<noteq> bid) (companies s) = companies s"
      using filter_none [of "\<lambda>c. building_id c = bid" "companies s"] by simp
    have row: "delete_building_row s b =
        s\<lparr>buildings := filter (\<lambda>r. bld_id r \<noteq> bid) (buildings s)\<rparr>"
      using none keep bb by (simp add: delete_building_row_def)
    have del: "delete_building s bid =
        (s\<lparr>buildings := filter (\<lambda>r. bld_id r \<noteq> bid) (buildings s)\<rparr>,
         Inr ''Building deleted successfully'')"
      using assms none row by (simp add: delete_building_def)
    have "find_building (s\<lparr>buildings := filter (\<lambda>r. bld_id r \<noteq> bid) (buildings s)\<rparr>) bid
        = None"
      by (simp add: find_building_def find_None_iff)
    with del False show ?thesis by simp
  qed
qed

text \<open>
  Instances of C7: in the example store the building 1 houses a company and cannot
  be deleted; the building 3 houses none and is deleted.
\<close>

theorem delete_building_guard_witness:
  "find_building demo_db 1 =
     Some \<lparr>bld_id = 1, address = ''Bluchera 32/1'', latitude = 0, longitude = 0\<rparr>
   \<and> delete_building demo_db 1 = (demo_db, Inl (HTTPException 400))
   \<and> find_building demo_db 3 =
     Some \<lparr>bld_id = 3, address = ''Mira 100'', latitude = 0, longitude = 0\<rparr>
   \<and> delete_building demo_db 3 =
       (demo_db\<lparr>buildings :=
          [\<lparr>bld_id = 1, address = ''Bluchera 32/1'', latitude = 0, longitude = 0\<rparr>,
           \<lparr>bld_id = 2, address = ''Lenina 15'', latitude = 0, longitude = 180\<rparr>]\<rparr>,
        Inr ''Building deleted successfully'')"
proof -
  have f1: "find_building demo_db 1 =
      Some \<lparr>bld_id = 1, address = ''Bluchera 32/1'', latitude = 0, longitude = 0\<rparr>"
    by (simp add: demo_db_def find_building_def)
  have f3: "find_building demo_db 3 =
      Some \<lparr>bld_id = 3, address = ''Mira 100'', latitude = 0, longitude = 0\<rparr>"
    by (simp add: demo_db_def find_building_def)
  from delete_building_guard [OF f1]
  have d1: "delete_building demo_db 1 = (demo_db, Inl (HTTPException 400))"
    by (simp add: demo_db_def)
  from delete_building_guard [OF f3]
  have d3: "delete_building demo_db 3 =
       (demo_db\<lparr>buildings :=
          [\<lparr>bld_id = 1, address = ''Bluchera 32/1'', latitude = 0, longitude = 0\<rparr>,
           \<lparr>bld_id = 2, address = ''Lenina 15'', latitude = 0, longitude = 180\<rparr>]\<rparr>,
        Inr ''Building deleted successfully'')"
    by (simp add: demo_db_def)
  from f1 f3 d1 d3 show ?thesis by simp
qed

subsection \<open>C8: the phones of a company\<close>

text \<open>
  C8, as the code has it. Let \<open>create_company\<close> succeed for a request whose list of
  phones is not empty and holds no phone with a comma. When the list is not the list
  of one empty phone, the response carries the requested phones, and \<open>get_company\<close>
  on the new store with the new id returns the same object, with the same phones in
  the same order. When the list is the list of one empty phone, \<open>get_company\<close>
  returns that object with no phones.
\<close>

theorem phones_round_trip:
  assumes ok: "create_company s req = (s', Inr out)"
    and ne: "cr_phones req \<noteq> []"
    and nd: "\<forall>p \<in> set (cr_phones req). CHR '','' \<notin> set p"
  shows "(cr_phones req \<noteq> [[]] \<longrightarrow>
            out_phones out = cr_phones req \<and> get_company s' (out_id out) = Inr out)
       \<and> (cr_phones req = [[]] \<longrightarrow>
            get_company s' (out_id out) = Inr (out\<lparr>out_phones := []\<rparr>))"
proof -
  let ?c = "\<lparr>co_id = next_id (map co_id (companies s)), co_name = cr_name req,
             phones = join '','' (cr_phones req),
             description = cr_description req, website = cr_website req,
             email = cr_email req, building_id = cr_building_id req,
             is_active = (if cr_is_active req then 1 else 0)\<rparr>"
  from ok have s': "companies s' = companies s @ [?c]"
    and out: "out = company_view s' ?c (split CHR '','' (phones ?c))"
    by (auto simp: create_company_def Let_def split: option.splits if_splits)
  have sj: "split CHR '','' (join '','' (cr_phones req)) = cr_phones req"
    using split_join [OF ne nd] .
  have fresh: "find (\<lambda>r. co_id r = co_id ?c) (companies s) = None"
    using find_fresh_none [of "co_id ?c" co_id "companies s"]
      next_id_fresh [of "map co_id (companies s)"]
    by simp
  have found: "find_company s' (out_id out) = Some ?c"
    using s' out fresh by (simp add: find_company_def find_snoc company_view_def)
  have same: "out_phones out = cr_phones req \<and> get_company s' (out_id out) = Inr out"
    if nb: "cr_phones req \<noteq> [[]]"
  proof -
    have nonempty: "join '','' (cr_phones req) \<noteq> []"
      using join_empty [OF ne, of "CHR '',''"] nb by blast
    from found have "get_company s' (out_id out) = Inr out"
      using out nonempty by (simp add: get_company_def)
    moreover have "out_phones out = cr_phones req"
      using out sj by (simp add: company_view_def)
    ultimately show ?thesis by simp
  qed
  have blank: "get_company s' (out_id out) = Inr (out\<lparr>out_phones := []\<rparr>)"
    if b: "cr_phones req = [[]]"
  proof -
    from b have "join '','' (cr_phones req) = []" by simp
    with found out show ?thesis
      by (simp add: get_company_def company_view_def)
  qed
  from same blank show ?thesis by blast
qed

text \<open>
  Instances of C8: a company created in the example store with the phones
  \<open>1-111-111\<close> and \<open>2-222-222\<close> gets the id 3, and both the response and the
  later retrieval carry the two phones in that order; a company created with one
  empty phone is retrieved with no phones.
\<close>

theorem phones_round_trip_witness:
  "map_sum id out_phones (snd (create_company demo_db two_phones_request)) =
     Inr [''1-111-111'', ''2-222-222'']
   \<and> map_sum id out_phones (get_company (fst (create_company demo_db two_phones_request)) 3) =
     Inr [''1-111-111'', ''2-222-222'']
   \<and> map_sum id out_phones (get_company (fst (create_company demo_db blank_phone_request)) 3) =
     Inr []"
proof -
  let ?out = "projr (snd (create_company demo_db two_phones_request))"
  have r: "snd (create_company demo_db two_phones_request) = Inr ?out"
    by (simp add: company_eval two_phones_request_def)
  then have ok: "create_company demo_db two_phones_request =
      (fst (create_company demo_db two_phones_request), Inr ?out)"
    by (simp add: prod_eq_iff)
  have i: "out_id ?out = 3"
    by (simp add: company_eval two_phones_request_def)
  have ne: "cr_phones two_phones_request \<noteq> []"
    and nd: "\<forall>p \<in> set (cr_phones two_phones_request). CHR '','' \<notin> set p"
    and nb: "cr_phones two_phones_request \<noteq> [[]]"
    by (simp_all add: two_phones_request_def)
  from phones_round_trip [OF ok ne nd] nb i
  have p: "out_phones ?out = [''1-111-111'', ''2-222-222'']"
    and g: "get_company (fst (create_company demo_db two_phones_request)) 3 = Inr ?out"
    by (simp_all add: two_phones_request_def)
  have "map_sum id out_phones (snd (create_company demo_db two_phones_request)) =
      map_sum id out_phones (Inr ?out)"
    using r by (rule arg_cong)
  moreover have "map_sum id out_phones
      (get_company (fst (create_company demo_db two_phones_request)) 3) =
      map_sum id out_phones (Inr ?out)"
    using g by (rule arg_cong)
  moreover have "map_sum id out_phones
      (get_company (fst (create_company demo_db blank_phone_request)) 3) = Inr []"
  proof -
    let ?b = "projr (snd (create_company demo_db blank_phone_request))"
    have rb: "snd (create_company demo_db blank_phone_request) = Inr ?b"
      by (simp add: company_eval blank_phone_request_def)
    then have okb: "create_company demo_db blank_phone_request =
        (fst (create_company demo_db blank_phone_request), Inr ?b)"
      by (simp add: prod_eq_iff)
    have ib: "out_id ?b = 3"
      by (simp add: company_eval blank_phone_request_def)
    have neb: "cr_phones blank_phone_request \<noteq> []"
      and ndb: "\<forall>p \<in> set (cr_phones blank_phone_request). CHR '','' \<notin> set p"
      and bb: "cr_phones blank_phone_request = [[]]"
      by (simp_all add: blank_phone_request_def)
    from phones_round_trip [OF okb neb ndb] bb ib
    have "get_company (fst (create_company demo_db blank_phone_request)) 3 =
        Inr (?b\<lparr>out_phones := []\<rparr>)"
      by simp
    then have "map_sum id out_phones
        (get_company (fst (create_company demo_db blank_phone_request)) 3) =
        map_sum id out_phones (Inr (?b\<lparr>out_phones := []\<rparr>))"
      by (rule arg_cong)
    then show ?thesis by simp
  qed
  ultimately show ?thesis by (simp add: p)
qed

text \<open>
  C8 as stated fails for the list of one empty phone: it holds no comma, it is
  joined to the empty string, the response of the creation splits that into the
  one empty phone, and the retrieval, which reads an empty column as no phones,
  returns the empty list.
\<close>

theorem phones_round_trip_counterexample:
  "cr_phones blank_phone_request = [[]]
   \<and> map_sum id out_phones (snd (create_company demo_db blank_phone_request)) = Inr [[]]
   \<and> map_sum id out_phones
       (get_company (fst (create_company demo_db blank_phone_request)) 3) = Inr []"
  by (simp add: company_eval blank_phone_request_def)

subsection \<open>C9: symmetry of the distance\<close>


subsection \<open>C10: a subtree without a usable path\<close>

text \<open>
  C10, as the code has it. For an id inside the signed 64-bit range of the store's
  keys: when no category has the id, or the category with the id has a NULL or
  empty path, \<open>get_all_child_category_ids\<close> raises no error and returns the list of
  that id alone. For an id outside that range the lookup of the category raises
  \<open>OverflowError\<close>.
\<close>

theorem subtree_ids_without_path:
  "(in_int64 k \<longrightarrow>
      find (\<lambda>c. cat_id c = k) (categories s) = None
      \<or> (\<exists>c. find (\<lambda>c. cat_id c = k) (categories s) = Some c
              \<and> (path c = None \<or> path c = Some [])) \<longrightarrow>
      get_all_child_category_ids s k = Inr [k])
   \<and> (\<not> in_int64 k \<longrightarrow> get_all_child_category_ids s k = Inl OverflowError)"
  by (auto simp: get_all_child_category_ids_def find_category_def truthy_str_def)

text \<open>
  Instances of C10 in \<open>pathless_db\<close>: the id 9 names no category, the category 1
  has a NULL path and the category 2 an empty one; the id \<open>- 2^63 - 1\<close> is outside
  the range of the keys.
\<close>

theorem subtree_ids_without_path_witness:
  "in_int64 9
   \<and> find (\<lambda>c. cat_id c = 9) (categories pathless_db) = None
   \<and> get_all_child_category_ids pathless_db 9 = Inr [9]
   \<and> get_all_child_category_ids pathless_db 1 = Inr [1]
   \<and> get_all_child_category_ids pathless_db 2 = Inr [2]
   \<and> \<not> in_int64 (- 9223372036854775809)
   \<and> get_all_child_category_ids pathless_db (- 9223372036854775809) = Inl OverflowError"
proof -
  have r: "in_int64 9" "in_int64 1" "in_int64 2" "\<not> in_int64 (- 9223372036854775809)"
    by (simp_all add: in_int64_def)
  have a: "find (\<lambda>c. cat_id c = 9) (categories pathless_db) = None"
    by (simp add: pathless_db_def empty_db_def)
  have b: "\<exists>c. find (\<lambda>c. cat_id c = 1) (categories pathless_db) = Some c
             \<and> (path c = None \<or> path c = Some [])"
    by (simp add: pathless_db_def empty_db_def)
  have c: "\<exists>c. find (\<lambda>c. cat_id c = 2) (categories pathless_db) = Some c
             \<and> (path c = None \<or> path c = Some [])"
    by (simp add: pathless_db_def empty_db_def)
  from r a b c show ?thesis
    using subtree_ids_without_path [of 9 pathless_db]
      subtree_ids_without_path [of 1 pathless_db]
      subtree_ids_without_path [of 2 pathless_db]
      subtree_ids_without_path [of "- 9223372036854775809" pathless_db]
    by blast
qed

text \<open>
  C10 as stated fails for an id outside the range of the keys: no category of the
  example store has the id \<open>2^63\<close>, and the lookup raises \<open>OverflowError\<close> instead
  of returning the list of that id.
\<close>

theorem subtree_ids_without_path_counterexample:
  "find (\<lambda>c. cat_id c = 9223372036854775808) (categories demo_db) = None
   \<and> get_all_child_category_ids demo_db 9223372036854775808 = Inl OverflowError"
  by (simp add: get_all_child_category_ids_def find_category_def in_int64_def demo_db_def)

end
